theory Spec2Isabelle
  imports Main "HOL-Library.Word"
begin

section \<open>Machine types and constants of arena.c\<close>

text \<open>
  The model fixes the LP64 data model: \<open>size_t\<close> and every pointer are 64-bit words.
  Arithmetic on \<open>size_t\<close> wraps modulo \<open>2 ^ 64\<close>, as unsigned arithmetic does in C.
  The null pointer is the word 0.
\<close>

type_synonym size_t = "64 word"
type_synonym addr = "64 word"

definition SIZE_MAX :: size_t where
  "SIZE_MAX = - 1"

definition ARENAIMP_MAGIC_FREE :: size_t where
  "ARENAIMP_MAGIC_FREE = 0x65657266"

definition ARENAIMP_MAGIC_ARENA :: size_t where
  "ARENAIMP_MAGIC_ARENA = 0x6e657261"

definition ARENAIMP_MAGIC_DEFER :: size_t where
  "ARENAIMP_MAGIC_DEFER = 0x66656461"

text \<open>The two static tables, entries of type \<open>uint8_t\<close>.\<close>

definition arenaimp_size_classes :: "nat list" where
  "arenaimp_size_classes = [2, 3, 4, 6, 10, 14, 18, 26, 34, 56]"

definition arenaimp_size_to_class :: "nat list" where
  "arenaimp_size_to_class =
    [0, 0, 0, 1, 2, 3, 3, 4, 4, 4, 4, 5, 5, 5, 5, 6, 6, 6, 6,
     7, 7, 7, 7, 7, 7, 7, 7, 8, 8, 8, 8, 8, 8, 8, 8, 9, 9, 9,
     9, 9, 9, 9, 9, 9, 9, 9, 9, 9, 9, 9, 9, 9, 9, 9, 9, 9, 9]"

definition ARENAIMP_SIZECLASS_QUANTIZATION :: size_t where
  "ARENAIMP_SIZECLASS_QUANTIZATION = 8"

definition ARENAIMP_NUM_SIZECLASSES :: nat where
  "ARENAIMP_NUM_SIZECLASSES = length arenaimp_size_classes"

definition ARENAIMP_LARGEST_SIZECLASS :: size_t where
  "ARENAIMP_LARGEST_SIZECLASS = 448"

definition ARENAIMP_FIRST_PAGE_SIZE :: size_t where
  "ARENAIMP_FIRST_PAGE_SIZE = 512"

definition ARENAIMP_MAX_PAGE_SIZE :: size_t where
  "ARENAIMP_MAX_PAGE_SIZE = 4096"

text \<open>
  The size-class lookup as \<open>aalloc_uninit_size\<close> (lines 326--327) and \<open>afree\<close>
  (lines 414--415) compute it from the footprint \<open>total_small\<close>, and the bucket size of
  a class (line 334).
\<close>

definition quantize :: "size_t \<Rightarrow> size_t" where
  "quantize total_small =
     (total_small + ARENAIMP_SIZECLASS_QUANTIZATION - 1) div ARENAIMP_SIZECLASS_QUANTIZATION"

definition sizeclass_of :: "size_t \<Rightarrow> nat" where
  "sizeclass_of total_small = arenaimp_size_to_class ! unat (quantize total_small)"

definition chunk_of :: "nat \<Rightarrow> size_t" where
  "chunk_of sizeclass =
     of_nat (arenaimp_size_classes ! sizeclass) * ARENAIMP_SIZECLASS_QUANTIZATION"


section \<open>The store\<close>

text \<open>
  A finalizer (\<open>arena_defer_fn *\<close>) is the null pointer, the address of
  \<open>arenaimp_defer_free_arena\<close>, or a function of the caller. A caller's function is
  opaque to the arena: the model records that it was called and with which argument.
\<close>

datatype defer_fn = FN_NULL | FN_FREE_ARENA | FN_USER nat

record arenaimp_defer_slot =
  ds_fn :: defer_fn
  ds_user :: addr
  ds_prev :: size_t
  ds_next :: size_t

record arenaimp_defer_header =
  dh_magic :: size_t
  dh_slot :: size_t

text \<open>
  \<open>struct arenaimp_t\<close>. The field \<open>size\<close> is named \<open>size_f\<close> here. The two
  sentinels \<open>big_head\<close> and \<open>big_tail\<close> are reached through pointers that also range
  over heap blocks, so their links live in the link store below, at the addresses
  \<open>big_head_addr\<close> and \<open>big_tail_addr\<close> (the LP64 offsets 88 and 112 of the fields).
\<close>

record arenaimp_t =
  magic :: size_t
  page :: addr
  pos :: size_t
  size_f :: size_t
  parent :: addr
  parent_slot :: size_t
  next_size :: size_t
  defers :: addr
  num_defers :: size_t
  active_defer_head :: size_t
  free_defer_head :: size_t
  next_free :: "nat \<Rightarrow> addr"
  allocated :: bool

definition sizeof_arenaimp_t :: size_t where
  "sizeof_arenaimp_t = 224"

definition sizeof_pointer :: size_t where
  "sizeof_pointer = 8"

definition sizeof_common_header :: size_t where
  "sizeof_common_header = 8"

definition sizeof_small_header :: size_t where
  "sizeof_small_header = 8"

definition sizeof_big_header :: size_t where
  "sizeof_big_header = 24"

definition sizeof_defer_slot :: size_t where
  "sizeof_defer_slot = 32"

definition sizeof_defer_header :: size_t where
  "sizeof_defer_header = 16"

definition ARENAIMP_INIT_SIZE :: size_t where
  "ARENAIMP_INIT_SIZE = 512"

definition ARENAIMP_EXTRA_SIZE :: size_t where
  "ARENAIMP_EXTRA_SIZE = 512 - sizeof_arenaimp_t"

definition big_head_addr :: "addr \<Rightarrow> addr" where
  "big_head_addr a = a + 88"

definition big_tail_addr :: "addr \<Rightarrow> addr" where
  "big_tail_addr a = a + 112"

definition zero_arena :: arenaimp_t where
  "zero_arena = \<lparr> magic = 0, page = 0, pos = 0, size_f = 0, parent = 0, parent_slot = 0,
     next_size = 0, defers = 0, num_defers = 0, active_defer_head = 0, free_defer_head = 0,
     next_free = (\<lambda>_. 0), allocated = False \<rparr>"

definition zero_slot :: arenaimp_defer_slot where
  "zero_slot = \<lparr> ds_fn = FN_NULL, ds_user = 0, ds_prev = 0, ds_next = 0 \<rparr>"

text \<open>
  What the program leaves behind for an observer: a call of a caller's finalizer, and a
  block handed back to the system allocator.
\<close>

datatype event = Called nat addr | Freed addr

text \<open>
  The store, one component per kind of object, each indexed by the address of the object:
  \<^item> \<open>arenas\<close>: the \<open>arenaimp_t\<close> at an address;
  \<^item> \<open>hdr\<close>: the 8-byte cell of a common or small header (the union of \<open>capacity\<close> and
    \<open>freed.next_free\<close>), indexed by the address of the header; the \<open>common\<close> field of a
    big header at \<open>h\<close> is the cell \<open>h + 16\<close>;
  \<^item> \<open>big_prev\<close>, \<open>big_next\<close>: the links of a big header or of a sentinel;
  \<^item> \<open>defer_mem\<close>: the array of \<open>arenaimp_defer_slot\<close> at a base address;
  \<^item> \<open>dh_mem\<close>: the \<open>arenaimp_defer_header\<close> at an address;
  \<^item> \<open>bytes\<close>: payload bytes.
  The system allocator is outside the program: \<open>malloc_plan\<close> lists the answers of its
  coming calls (0 for a failed call), \<open>live\<close> holds the blocks it has handed out and not
  taken back, with their sizes. \<open>asserts\<close> says whether \<open>assert\<close> is compiled in
  (\<open>NDEBUG\<close> not defined).
\<close>

record state =
  asserts :: bool
  arenas :: "addr \<Rightarrow> arenaimp_t"
  hdr :: "addr \<Rightarrow> size_t"
  big_prev :: "addr \<Rightarrow> addr"
  big_next :: "addr \<Rightarrow> addr"
  defer_mem :: "addr \<Rightarrow> size_t \<Rightarrow> arenaimp_defer_slot"
  dh_mem :: "addr \<Rightarrow> arenaimp_defer_header"
  bytes :: "addr \<Rightarrow> 8 word"
  malloc_plan :: "addr list"
  live :: "addr \<rightharpoonup> size_t"
  trace :: "event list"

datatype fault = AssertFail | NullDeref | NullCall | BadFree | OutOfFuel

type_synonym 'a res = "fault + 'a \<times> state"

definition upd_arena :: "state \<Rightarrow> addr \<Rightarrow> (arenaimp_t \<Rightarrow> arenaimp_t) \<Rightarrow> state" where
  "upd_arena s a f = s\<lparr>arenas := (arenas s)(a := f (arenas s a))\<rparr>"

definition upd_slot ::
  "state \<Rightarrow> addr \<Rightarrow> size_t \<Rightarrow> (arenaimp_defer_slot \<Rightarrow> arenaimp_defer_slot) \<Rightarrow> state" where
  "upd_slot s d i f = s\<lparr>defer_mem := (defer_mem s)(d := (defer_mem s d)(i := f (defer_mem s d i)))\<rparr>"

subsection \<open>The C library\<close>

definition malloc :: "state \<Rightarrow> size_t \<Rightarrow> addr \<times> state" where
  "malloc s n =
     (case malloc_plan s of
        [] \<Rightarrow> (0, s)
      | p # ps \<Rightarrow>
          (p, s\<lparr>malloc_plan := ps, live := (if p = 0 then live s else (live s)(p \<mapsto> n))\<rparr>))"

text \<open>\<open>free\<close> of a block that is not live (a second \<open>free\<close>, or a foreign pointer) is a fault.\<close>

definition free :: "state \<Rightarrow> addr \<Rightarrow> unit res" where
  "free s p =
     (if p = 0 then Inr ((), s)
      else if live s p = None then Inl BadFree
      else Inr ((), s\<lparr>live := (live s)(p := None), trace := trace s @ [Freed p]\<rparr>))"

text \<open>
  \<open>memset(dst, 0, n)\<close> clears every object in \<open>[dst, dst + n)\<close>; with a null \<open>dst\<close> and
  \<open>n > 0\<close> it is a fault. \<open>memcpy\<close> copies the payload: the bytes and the defer slots.
  \<open>zero_range\<close> and \<open>copy_range\<close> are the two operations on one component of the store,
  \<open>zero_slots\<close> and \<open>copy_slots\<close> on one array of defer slots.
\<close>

definition zero_range :: "(addr \<Rightarrow> 'a::zero) \<Rightarrow> addr \<Rightarrow> size_t \<Rightarrow> addr \<Rightarrow> 'a" where
  "zero_range f dst n = (\<lambda>x. if x - dst < n then 0 else f x)"

definition copy_range :: "(addr \<Rightarrow> 'a) \<Rightarrow> addr \<Rightarrow> addr \<Rightarrow> size_t \<Rightarrow> addr \<Rightarrow> 'a" where
  "copy_range f dst src n = (\<lambda>x. if x - dst < n then f (src + (x - dst)) else f x)"

definition zero_slots ::
  "(size_t \<Rightarrow> arenaimp_defer_slot) \<Rightarrow> size_t \<Rightarrow> size_t \<Rightarrow> arenaimp_defer_slot" where
  "zero_slots f k = (\<lambda>i. if i < k then zero_slot else f i)"

definition copy_slots ::
  "(size_t \<Rightarrow> arenaimp_defer_slot) \<Rightarrow> (size_t \<Rightarrow> arenaimp_defer_slot) \<Rightarrow> size_t
     \<Rightarrow> size_t \<Rightarrow> arenaimp_defer_slot" where
  "copy_slots f g k = (\<lambda>i. if i < k then g i else f i)"

definition zeroed :: "state \<Rightarrow> addr \<Rightarrow> size_t \<Rightarrow> state" where
  "zeroed s dst n = s\<lparr>
        bytes := zero_range (bytes s) dst n,
        hdr := zero_range (hdr s) dst n,
        big_prev := zero_range (big_prev s) dst n,
        big_next := zero_range (big_next s) dst n,
        defer_mem := (defer_mem s)(dst := zero_slots (defer_mem s dst) (n div sizeof_defer_slot)),
        arenas := (if sizeof_arenaimp_t \<le> n then (arenas s)(dst := zero_arena) else arenas s)\<rparr>"

definition memset0 :: "state \<Rightarrow> addr \<Rightarrow> size_t \<Rightarrow> unit res" where
  "memset0 s dst n =
     (if n = 0 then Inr ((), s)
      else if dst = 0 then Inl NullDeref
      else Inr ((), zeroed s dst n))"

definition memcpy :: "state \<Rightarrow> addr \<Rightarrow> addr \<Rightarrow> size_t \<Rightarrow> unit res" where
  "memcpy s dst src n =
     (if n = 0 then Inr ((), s)
      else if dst = 0 \<or> src = 0 then Inl NullDeref
      else Inr ((), s\<lparr>
        bytes := copy_range (bytes s) dst src n,
        defer_mem := (defer_mem s)(dst :=
          copy_slots (defer_mem s dst) (defer_mem s src) (n div sizeof_defer_slot))\<rparr>))"

definition arenaimp_copy :: "state \<Rightarrow> addr \<Rightarrow> addr \<Rightarrow> size_t \<Rightarrow> unit res" where
  "arenaimp_copy s dst src n = (if src \<noteq> 0 then memcpy s dst src n else memset0 s dst n)"


section \<open>Allocation\<close>

text \<open>
  \<open>aalloc_uninit_size\<close> (lines 308--377). A null \<open>arena\<close> allocates from the system
  with a common header. Otherwise the footprint \<open>total_small\<close> decides: at most 448 bytes
  are served from the free list of the class, then from the current page, then from a
  new page, which the function allocates by calling itself; more than 448 bytes are a
  big block, linked behind \<open>big_head\<close>.
\<close>

text \<open>
  Linking a fresh big header behind \<open>big_head\<close> (lines 368--374), in the order of the
  five assignments.
\<close>

definition big_insert :: "state \<Rightarrow> addr \<Rightarrow> addr \<Rightarrow> size_t \<Rightarrow> state" where
  "big_insert s arena alloc capacity =
     (let head = big_head_addr arena;
          nxt = big_next s head;
          s2 = s\<lparr>big_prev := (big_prev s)(alloc := head)\<rparr>;
          s3 = s2\<lparr>big_next := (big_next s2)(alloc := nxt)\<rparr>;
          s4 = s3\<lparr>hdr := (hdr s3)(alloc + 16 := capacity)\<rparr>;
          s5 = s4\<lparr>big_prev := (big_prev s4)(nxt := alloc)\<rparr>
      in s5\<lparr>big_next := (big_next s5)(head := alloc)\<rparr>)"

text \<open>
  The three steps of the growth path around the allocation of the new page: the new
  \<open>next_size\<close> (lines 342--344), the size of the page (lines 346--347), and, once the
  page is there, the header of the block at its start and the switch of the current page
  (lines 352--359).
\<close>

definition grow_state :: "state \<Rightarrow> addr \<Rightarrow> state" where
  "grow_state s arena =
     upd_arena s arena (\<lambda>a. a\<lparr>next_size :=
       (if next_size a * 2 > ARENAIMP_MAX_PAGE_SIZE then ARENAIMP_MAX_PAGE_SIZE
        else next_size a * 2)\<rparr>)"

definition grow_page_size :: "arenaimp_t \<Rightarrow> size_t \<Rightarrow> size_t" where
  "grow_page_size a total_small =
     (if next_size a < total_small then total_small else next_size a)"

definition grow_commit ::
  "state \<Rightarrow> addr \<Rightarrow> addr \<Rightarrow> size_t \<Rightarrow> size_t \<Rightarrow> size_t \<Rightarrow> state" where
  "grow_commit s2 arena new_page capacity total_small page_size =
     (let s3 = s2\<lparr>hdr := (hdr s2)(new_page := capacity)\<rparr>
      in if page_size - total_small > size_f (arenas s3 arena) - pos (arenas s3 arena)
         then upd_arena s3 arena
                (\<lambda>a. a\<lparr>page := new_page, pos := total_small, size_f := page_size\<rparr>)
         else s3)"

function aalloc_uninit_size :: "state \<Rightarrow> addr \<Rightarrow> size_t \<Rightarrow> size_t \<Rightarrow> addr res" where
  "aalloc_uninit_size s arena sz count =
    (let total = sz * count in
     if arena = 0 then
       (let total_alloc = sizeof_common_header + total;
            (alloc, s1) = malloc s total_alloc
        in if alloc = 0 then Inr (0, s1)
           else Inr (alloc + 8, s1\<lparr>hdr := (hdr s1)(alloc := total)\<rparr>))
     else if asserts s \<and> magic (arenas s arena) \<noteq> ARENAIMP_MAGIC_ARENA then Inl AssertFail
     else
       (let a = arenas s arena;
            total_small = sizeof_small_header + total
        in if total_small \<le> ARENAIMP_LARGEST_SIZECLASS then
             (let sizeclass = sizeclass_of total_small;
                  nxt = next_free a sizeclass
              in if nxt \<noteq> 0 then
                   Inr (nxt + 8,
                     s\<lparr>arenas := (arenas s)(arena := a\<lparr>next_free := (next_free a)(sizeclass := hdr s nxt)\<rparr>),
                       hdr := (hdr s)(nxt := total)\<rparr>)
                 else
                   (let chunk = chunk_of sizeclass;
                        p = pos a
                    in if size_f a - p \<ge> chunk then
                         (let alloc = page a + p
                          in Inr (alloc + 8,
                               s\<lparr>arenas := (arenas s)(arena := a\<lparr>pos := p + chunk\<rparr>),
                                 hdr := (hdr s)(alloc := total)\<rparr>))
                       else
                         (let s1 = grow_state s arena;
                              page_size = grow_page_size (arenas s1 arena) total_small
                          in if asserts s \<and> \<not> page_size > ARENAIMP_LARGEST_SIZECLASS
                             then Inl AssertFail
                             else
                               (case aalloc_uninit_size s1 arena 1 page_size of
                                  Inl e \<Rightarrow> Inl e
                                | Inr (new_page, s2) \<Rightarrow>
                                    if new_page = 0 then Inr (0, s2)
                                    else Inr (new_page + 8,
                                           grow_commit s2 arena new_page total total_small
                                             page_size)))))
           else
             (let (alloc, s1) = malloc s (sizeof_big_header + total)
              in if alloc = 0 then (if asserts s then Inl AssertFail else Inr (0, s1))
                 else
                   Inr (alloc + 24, big_insert s1 arena alloc total))))"
  by pat_completeness auto


lemmas size_consts =
  sizeof_common_header_def sizeof_small_header_def sizeof_big_header_def
  ARENAIMP_LARGEST_SIZECLASS_def ARENAIMP_MAX_PAGE_SIZE_def

lemma page_grows:
  fixes ts ns :: size_t
  assumes "ts \<le> 448"
  shows "457 - unat (8 + (if (if 4096 < ns then 4096 else ns) < ts then ts
                          else (if 4096 < ns then 4096 else ns))) < 457 - unat ts"
  using assms
  by (auto simp: unat_word_ariths word_le_nat_alt word_less_nat_alt split: if_splits)

lemma grow_measure:
  assumes "8 + sz * count \<le> (448 :: size_t)"
  shows "457 - unat (8 + 1 * grow_page_size (arenas (grow_state s arena) arena) (8 + sz * count))
           < 457 - unat (8 + sz * count)"
  using page_grows[OF assms, of "next_size (arenas s arena) * 2"]
  by (simp add: grow_page_size_def grow_state_def upd_arena_def ARENAIMP_MAX_PAGE_SIZE_def
      split: if_splits)

termination aalloc_uninit_size
  apply (relation "measure (\<lambda>(s, arena, sz, count). 457 - unat (sizeof_small_header + sz * count))")
   apply simp
  subgoal for s arena sz count
    using grow_measure[of sz count s arena]
    by (simp add: size_consts)
  done

declare aalloc_uninit_size.simps [simp del]

text \<open>\<open>aalloc_size\<close> (lines 379--384) and \<open>aalloc_copy_size\<close> (lines 386--391).\<close>

definition aalloc_size :: "state \<Rightarrow> addr \<Rightarrow> size_t \<Rightarrow> size_t \<Rightarrow> addr res" where
  "aalloc_size s a sz count =
     (case aalloc_uninit_size s a sz count of
        Inl e \<Rightarrow> Inl e
      | Inr (ptr, s1) \<Rightarrow>
          (case memset0 s1 ptr (sz * count) of
             Inl e \<Rightarrow> Inl e
           | Inr (_, s2) \<Rightarrow> Inr (ptr, s2)))"

definition aalloc_copy_size :: "state \<Rightarrow> addr \<Rightarrow> size_t \<Rightarrow> size_t \<Rightarrow> addr \<Rightarrow> addr res" where
  "aalloc_copy_size s a sz count data =
     (case aalloc_uninit_size s a sz count of
        Inl e \<Rightarrow> Inl e
      | Inr (ptr, s1) \<Rightarrow>
          (case arenaimp_copy s1 ptr data (sz * count) of
             Inl e \<Rightarrow> Inl e
           | Inr (_, s2) \<Rightarrow> Inr (ptr, s2)))"

text \<open>
  \<open>afree\<close> (lines 399--425). A small block goes to the head of the free list of its class,
  the link written over its capacity; a big block is unlinked from the ring
  (\<open>big_unlink\<close>, lines 420 and 422--423) and is not handed back to the system.
\<close>

definition big_unlink :: "state \<Rightarrow> addr \<Rightarrow> state" where
  "big_unlink s alloc =
     (let prv = big_prev s alloc;
          nxt = big_next s alloc;
          s1 = s\<lparr>big_next := (big_next s)(prv := nxt)\<rparr>
      in s1\<lparr>big_prev := (big_prev s1)(nxt := prv)\<rparr>)"

definition afree :: "state \<Rightarrow> addr \<Rightarrow> addr \<Rightarrow> unit res" where
  "afree s arena ptr =
     (if ptr = 0 then Inr ((), s)
      else
        (let common = ptr - 8
         in if arena = 0 then free s common
            else
              (let capacity = hdr s common
               in if capacity \<le> ARENAIMP_LARGEST_SIZECLASS - sizeof_small_header then
                    (let alloc = ptr - 8;
                         a = arenas s arena;
                         total_small = capacity + sizeof_small_header;
                         sizeclass = sizeclass_of total_small;
                         s1 = s\<lparr>hdr := (hdr s)(alloc := next_free a sizeclass)\<rparr>
                     in Inr ((), s1\<lparr>arenas := (arenas s1)(arena :=
                                  a\<lparr>next_free := (next_free a)(sizeclass := alloc)\<rparr>)\<rparr>))
                  else
                    (let alloc = ptr - 24;
                         prv = big_prev s alloc;
                         nxt = big_next s alloc
                     in if asserts s \<and> \<not> (big_next s prv = alloc \<and> big_prev s nxt = alloc)
                        then Inl AssertFail
                        else Inr ((), big_unlink s alloc)))))"

definition aalloc_capacity_bytes :: "state \<Rightarrow> addr \<Rightarrow> size_t" where
  "aalloc_capacity_bytes s ptr = (if ptr = 0 then 0 else hdr s (ptr - 8))"

text \<open>\<open>arealloc_size\<close> (lines 434--457).\<close>

definition arealloc_size :: "state \<Rightarrow> addr \<Rightarrow> size_t \<Rightarrow> size_t \<Rightarrow> addr \<Rightarrow> addr res" where
  "arealloc_size s arena sz count ptr =
     (if ptr = 0 then
        (if count = 0 then Inr (0, s) else aalloc_uninit_size s arena sz count)
      else
        (let capacity = hdr s (ptr - 8);
             total = sz * count
         in if total \<le> capacity then Inr (ptr, s)
            else
              (let new_cap0 = capacity * 2;
                   new_cap = (if total \<ge> new_cap0 then total else new_cap0)
               in case aalloc_uninit_size s arena 1 new_cap of
                    Inl e \<Rightarrow> Inl e
                  | Inr (new_ptr, s1) \<Rightarrow>
                      if new_ptr = 0 then Inr (0, s1)
                      else
                        (case memcpy s1 new_ptr ptr capacity of
                           Inl e \<Rightarrow> Inl e
                         | Inr (_, s2) \<Rightarrow>
                             (case afree s2 arena ptr of
                                Inl e \<Rightarrow> Inl e
                              | Inr (_, s3) \<Rightarrow> Inr (new_ptr, s3))))))"


section \<open>The deferred-cleanup registry\<close>

text \<open>
  \<open>arena_ext_defer\<close> (lines 239--268). The macro \<open>arealloc(a, T, n, p)\<close> of arena.h is
  read as \<open>arealloc_size(a, sizeof(T), n, p)\<close>. The first part takes a slot from the free
  list or grows the table; the second part fills the slot and puts it at the head of the
  active list.
\<close>

definition arena_ext_defer :: "state \<Rightarrow> addr \<Rightarrow> defer_fn \<Rightarrow> addr \<Rightarrow> size_t res" where
  "arena_ext_defer s arena f data =
     (if arena = 0 then Inl (if asserts s then AssertFail else NullDeref)
      else if asserts s \<and> magic (arenas s arena) \<noteq> ARENAIMP_MAGIC_ARENA then Inl AssertFail
      else if asserts s \<and> f = FN_NULL then Inl AssertFail
      else
        (let a = arenas s arena
         in case (if free_defer_head a \<noteq> SIZE_MAX then
                    (let slot = free_defer_head a
                     in Inr (Some slot,
                          upd_arena s arena
                            (\<lambda>a. a\<lparr>free_defer_head := ds_next (defer_mem s (defers a) slot)\<rparr>)))
                  else
                    (case arealloc_size s arena sizeof_defer_slot (num_defers a + 1) (defers a) of
                       Inl e \<Rightarrow> Inl e
                     | Inr (d, s1) \<Rightarrow>
                         if d = 0 then Inr (None, s1)
                         else Inr (Some (num_defers (arenas s1 arena)),
                                upd_arena s1 arena
                                  (\<lambda>a. a\<lparr>defers := d, num_defers := num_defers a + 1\<rparr>)))) of
              Inl e \<Rightarrow> Inl e
            | Inr (None, s1) \<Rightarrow> Inr (SIZE_MAX, s1)
            | Inr (Some slot, s1) \<Rightarrow>
                (let head = active_defer_head (arenas s1 arena);
                     d = defers (arenas s1 arena);
                     s2 = upd_slot s1 d slot
                            (\<lambda>_. \<lparr>ds_fn = f, ds_user = data, ds_prev = SIZE_MAX, ds_next = head\<rparr>);
                     s3 = (if head \<noteq> SIZE_MAX
                           then upd_slot s2 d head (\<lambda>ds. ds\<lparr>ds_prev := slot\<rparr>) else s2)
                 in Inr (slot, upd_arena s3 arena (\<lambda>a. a\<lparr>active_defer_head := slot\<rparr>)))))"

text \<open>\<open>arena_ext_redefer\<close> (lines 270--279).\<close>

definition arena_ext_redefer ::
  "state \<Rightarrow> addr \<Rightarrow> size_t \<Rightarrow> defer_fn \<Rightarrow> addr \<Rightarrow> unit res" where
  "arena_ext_redefer s arena slot f data =
     (if arena = 0 then Inl (if asserts s then AssertFail else NullDeref)
      else if asserts s \<and> magic (arenas s arena) \<noteq> ARENAIMP_MAGIC_ARENA then Inl AssertFail
      else Inr ((), upd_slot s (defers (arenas s arena)) slot
                      (\<lambda>ds. ds\<lparr>ds_fn := f, ds_user := data\<rparr>)))"

text \<open>
  The second half of \<open>arena_ext_cancel\<close> (lines 292--305): the slot \<open>ds\<close>, which is
  \<open>&a->defers[slot]\<close> as computed on entry, leaves the active list and becomes the head
  of the free list.
\<close>

definition cancel_unlink :: "state \<Rightarrow> addr \<Rightarrow> addr \<Rightarrow> size_t \<Rightarrow> state" where
  "cancel_unlink s arena d slot =
     (let s1 = (if ds_prev (defer_mem s d slot) \<noteq> SIZE_MAX
                then upd_slot s (defers (arenas s arena)) (ds_prev (defer_mem s d slot))
                       (\<lambda>p. p\<lparr>ds_next := ds_next (defer_mem s d slot)\<rparr>)
                else upd_arena s arena
                       (\<lambda>a. a\<lparr>active_defer_head := ds_next (defer_mem s d slot)\<rparr>));
          s2 = (if ds_next (defer_mem s1 d slot) \<noteq> SIZE_MAX
                then upd_slot s1 (defers (arenas s1 arena)) (ds_next (defer_mem s1 d slot))
                       (\<lambda>n. n\<lparr>ds_prev := ds_prev (defer_mem s1 d slot)\<rparr>)
                else s1);
          s3 = upd_slot s2 d slot
                 (\<lambda>_. \<lparr>ds_fn = FN_NULL, ds_user = 0, ds_prev = SIZE_MAX,
                        ds_next = free_defer_head (arenas s2 arena)\<rparr>)
      in upd_arena s3 arena (\<lambda>a. a\<lparr>free_defer_head := slot\<rparr>))"

section \<open>Teardown\<close>

text \<open>
  The sweep over the big-object ring in \<open>arena_free\<close> (lines 176--182). The loop runs
  as long as the links do not lead to \<open>last_p\<close> (the tail sentinel); the first argument bounds the number of
  iterations.
\<close>

fun big_sweep :: "nat \<Rightarrow> state \<Rightarrow> addr \<Rightarrow> addr \<Rightarrow> unit res" where
  "big_sweep 0 s alloc last_p = Inl OutOfFuel"
| "big_sweep (Suc n) s alloc last_p =
     (if alloc = last_p then Inr ((), s)
      else
        (let nxt = big_next s alloc
         in case free s alloc of
              Inl e \<Rightarrow> Inl e
            | Inr (_, s1) \<Rightarrow> big_sweep n s1 nxt last_p))"

text \<open>
  A call through a finalizer pointer (\<open>invoke\<close>), the walk over the active list (lines
  169--174), \<open>arena_ext_cancel\<close> (lines 281--306) and \<open>arena_free\<close> (lines 162--193) call
  each other: \<open>arenaimp_defer_free_arena\<close> (lines 102--105) is \<open>arena_free\<close>. The first
  argument bounds the depth of calls and the number of iterations; every call and every
  iteration takes one unit.
\<close>

fun invoke :: "nat \<Rightarrow> state \<Rightarrow> defer_fn \<Rightarrow> addr \<Rightarrow> unit res"
  and defer_walk :: "nat \<Rightarrow> state \<Rightarrow> addr \<Rightarrow> size_t \<Rightarrow> unit res"
  and arena_ext_cancel :: "nat \<Rightarrow> state \<Rightarrow> addr \<Rightarrow> size_t \<Rightarrow> bool \<Rightarrow> unit res"
  and arena_free :: "nat \<Rightarrow> state \<Rightarrow> addr \<Rightarrow> unit res"
where
  "invoke 0 s f u = Inl OutOfFuel"
| "invoke (Suc n) s f u =
     (case f of
        FN_NULL \<Rightarrow> Inl NullCall
      | FN_FREE_ARENA \<Rightarrow> arena_free n s u
      | FN_USER k \<Rightarrow> Inr ((), s\<lparr>trace := trace s @ [Called k u]\<rparr>))"
| "defer_walk 0 s defers_p slot = Inl OutOfFuel"
| "defer_walk (Suc n) s defers_p slot =
     (if slot = SIZE_MAX then Inr ((), s)
      else
        (case invoke n s (ds_fn (defer_mem s defers_p slot)) (ds_user (defer_mem s defers_p slot)) of
           Inl e \<Rightarrow> Inl e
         | Inr (_, s1) \<Rightarrow> defer_walk n s1 defers_p (ds_next (defer_mem s1 defers_p slot))))"
| "arena_ext_cancel 0 s arena slot run_defer = Inl OutOfFuel"
| "arena_ext_cancel (Suc n) s arena slot run_defer =
     (if arena = 0 then Inl (if asserts s then AssertFail else NullDeref)
      else if asserts s \<and> magic (arenas s arena) \<noteq> ARENAIMP_MAGIC_ARENA then Inl AssertFail
      else
        (let d = defers (arenas s arena)
         in case (if run_defer
                  then invoke n s (ds_fn (defer_mem s d slot)) (ds_user (defer_mem s d slot))
                  else Inr ((), s)) of
              Inl e \<Rightarrow> Inl e
            | Inr (_, s1) \<Rightarrow> Inr ((), cancel_unlink s1 arena d slot)))"
| "arena_free 0 s arena = Inl OutOfFuel"
| "arena_free (Suc n) s arena =
     (if arena = 0 then Inr ((), s)
      else if asserts s \<and> magic (arenas s arena) \<noteq> ARENAIMP_MAGIC_ARENA then Inl AssertFail
      else
        (let s1 = upd_arena s arena (\<lambda>a. a\<lparr>magic := ARENAIMP_MAGIC_FREE\<rparr>);
             slot = active_defer_head (arenas s1 arena);
             defers_p = defers (arenas s1 arena)
         in case defer_walk n s1 defers_p slot of
              Inl e \<Rightarrow> Inl e
            | Inr (_, s2) \<Rightarrow>
                (case big_sweep n s2 (big_next s2 (big_head_addr arena)) (big_tail_addr arena) of
                   Inl e \<Rightarrow> Inl e
                 | Inr (_, s3) \<Rightarrow>
                     if allocated (arenas s3 arena) then
                       (if parent (arenas s3 arena) \<noteq> 0 then
                          (case arena_ext_cancel n s3 (parent (arenas s3 arena))
                                  (parent_slot (arenas s3 arena)) False of
                             Inl e \<Rightarrow> Inl e
                           | Inr (_, s4) \<Rightarrow> afree s4 (parent (arenas s3 arena)) arena)
                        else free s3 arena)
                     else Inr ((), s3))))"


section \<open>Arena lifecycle\<close>

text \<open>\<open>arenaimp_init\<close> (lines 107--119).\<close>

definition arenaimp_init :: "state \<Rightarrow> addr \<Rightarrow> state" where
  "arenaimp_init s a =
     (let s1 = upd_arena s a (\<lambda>r. r\<lparr>magic := ARENAIMP_MAGIC_ARENA,
                 active_defer_head := SIZE_MAX, free_defer_head := SIZE_MAX\<rparr>);
          s2 = s1\<lparr>big_next := (big_next s1)(big_head_addr a := big_tail_addr a)\<rparr>;
          s3 = s2\<lparr>big_next := (big_next s2)(big_tail_addr a := big_head_addr a)\<rparr>
      in upd_arena s3 a (\<lambda>r. r\<lparr>next_size := ARENAIMP_FIRST_PAGE_SIZE div 2,
           page := a, pos := sizeof_arenaimp_t, size_f := ARENAIMP_INIT_SIZE\<rparr>))"

text \<open>
  \<open>arena_create\<close> (lines 121--142). The root path asks the system for
  \<open>sizeof(a) + ARENAIMP_EXTRA_SIZE\<close> bytes, where \<open>a\<close> is the pointer.
\<close>

definition arena_create :: "state \<Rightarrow> addr \<Rightarrow> addr res" where
  "arena_create s parent_p =
     (if parent_p \<noteq> 0 then
        (case aalloc_size s parent_p (sizeof_arenaimp_t + ARENAIMP_EXTRA_SIZE) 1 of
           Inl e \<Rightarrow> Inl e
         | Inr (a, s1) \<Rightarrow>
             if a = 0 then Inr (0, s1)
             else
               (let s2 = upd_arena s1 a (\<lambda>r. r\<lparr>parent := parent_p\<rparr>)
                in case arena_ext_defer s2 parent_p FN_FREE_ARENA a of
                     Inl e \<Rightarrow> Inl e
                   | Inr (slot, s3) \<Rightarrow>
                       (let s4 = upd_arena s3 a (\<lambda>r. r\<lparr>parent_slot := slot\<rparr>)
                        in if slot = SIZE_MAX then
                             (case afree s4 parent_p a of
                                Inl e \<Rightarrow> Inl e
                              | Inr (_, s5) \<Rightarrow> Inr (0, s5))
                           else
                             Inr (a, arenaimp_init
                                       (upd_arena s4 a (\<lambda>r. r\<lparr>allocated := True\<rparr>)) a))))
      else
        (let (a, s1) = malloc s (sizeof_pointer + ARENAIMP_EXTRA_SIZE)
         in if a = 0 then Inr (0, s1)
            else
              (case memset0 s1 a sizeof_arenaimp_t of
                 Inl e \<Rightarrow> Inl e
               | Inr (_, s2) \<Rightarrow>
                   Inr (a, arenaimp_init (upd_arena s2 a (\<lambda>r. r\<lparr>allocated := True\<rparr>)) a))))"

text \<open>\<open>arena_init\<close> (lines 144--160).\<close>

definition arena_init :: "state \<Rightarrow> addr \<Rightarrow> addr \<Rightarrow> bool res" where
  "arena_init s arena parent_p =
     (case memset0 s arena sizeof_arenaimp_t of
        Inl e \<Rightarrow> Inl e
      | Inr (_, s1) \<Rightarrow>
          if parent_p \<noteq> 0 then
            (let s2 = upd_arena s1 arena (\<lambda>r. r\<lparr>parent := parent_p\<rparr>)
             in case arena_ext_defer s2 parent_p FN_FREE_ARENA arena of
                  Inl e \<Rightarrow> Inl e
                | Inr (slot, s3) \<Rightarrow>
                    (let s4 = upd_arena s3 arena (\<lambda>r. r\<lparr>parent_slot := slot\<rparr>)
                     in if slot = SIZE_MAX then
                          (case afree s4 parent_p arena of
                             Inl e \<Rightarrow> Inl e
                           | Inr (_, s5) \<Rightarrow> Inr (False, s5))
                        else
                          Inr (True, arenaimp_init
                                       (upd_arena s4 arena (\<lambda>r. r\<lparr>allocated := False\<rparr>)) arena)))
          else
            Inr (True, arenaimp_init (upd_arena s1 arena (\<lambda>r. r\<lparr>allocated := False\<rparr>)) arena))"

section \<open>Deferred allocations\<close>

text \<open>\<open>arena_defer_size\<close> (lines 195--217).\<close>

definition arena_defer_size :: "state \<Rightarrow> addr \<Rightarrow> defer_fn \<Rightarrow> size_t \<Rightarrow> addr \<Rightarrow> addr res" where
  "arena_defer_size s arena f sz data =
     (if arena = 0 then Inl (if asserts s then AssertFail else NullDeref)
      else if asserts s \<and> magic (arenas s arena) \<noteq> ARENAIMP_MAGIC_ARENA then Inl AssertFail
      else
        (let total = sizeof_defer_header + sz
         in case aalloc_uninit_size s arena total 1 of
              Inl e \<Rightarrow> Inl e
            | Inr (dh, s1) \<Rightarrow>
                if asserts s1 \<and> dh = 0 then Inl AssertFail
                else if dh = 0 then Inr (0, s1)
                else
                  (let copy = dh + 16
                   in case arenaimp_copy s1 copy data sz of
                        Inl e \<Rightarrow> Inl e
                      | Inr (_, s2) \<Rightarrow>
                          (case arena_ext_defer s2 arena f copy of
                             Inl e \<Rightarrow> Inl e
                           | Inr (slot, s3) \<Rightarrow>
                               if slot = SIZE_MAX then
                                 (case afree s3 arena dh of
                                    Inl e \<Rightarrow> Inl e
                                  | Inr (_, s4) \<Rightarrow> Inr (0, s4))
                               else
                                 Inr (copy, s3\<lparr>dh_mem := (dh_mem s3)(dh :=
                                        \<lparr>dh_magic = ARENAIMP_MAGIC_DEFER, dh_slot = slot\<rparr>)\<rparr>)))))"

text \<open>\<open>arena_cancel_retain\<close> (lines 219--229) and \<open>arena_cancel\<close> (lines 231--237).\<close>

definition arena_cancel_retain :: "nat \<Rightarrow> state \<Rightarrow> addr \<Rightarrow> addr \<Rightarrow> bool \<Rightarrow> unit res" where
  "arena_cancel_retain n s arena ptr run_defer =
     (if ptr = 0 then Inr ((), s)
      else
        (let dh = ptr - 16
         in if asserts s \<and> dh_magic (dh_mem s dh) \<noteq> ARENAIMP_MAGIC_DEFER then Inl AssertFail
            else
              (case arena_ext_cancel n s arena (dh_slot (dh_mem s dh)) run_defer of
                 Inl e \<Rightarrow> Inl e
               | Inr (_, s1) \<Rightarrow>
                   Inr ((), s1\<lparr>dh_mem := (dh_mem s1)(dh :=
                          \<lparr>dh_magic = ARENAIMP_MAGIC_FREE, dh_slot = SIZE_MAX\<rparr>)\<rparr>))))"

definition arena_cancel :: "nat \<Rightarrow> state \<Rightarrow> addr \<Rightarrow> addr \<Rightarrow> bool \<Rightarrow> unit res" where
  "arena_cancel n s arena ptr run_defer =
     (if ptr = 0 then Inr ((), s)
      else
        (case arena_cancel_retain n s arena ptr run_defer of
           Inl e \<Rightarrow> Inl e
         | Inr (_, s1) \<Rightarrow> afree s1 arena (ptr - 16)))"

section \<open>List helpers\<close>

text \<open>
  \<open>arenaimp_alist\<close> is the caller's list header; the functions take it and give it back.
  The elements are \<open>sz\<close> bytes each, in the byte store from \<open>al_data\<close> on.
\<close>

record arenaimp_alist =
  al_data :: addr
  al_count :: size_t

text \<open>\<open>alist_push_size\<close> (lines 464--475) and \<open>alist_pop_size\<close> (lines 477--485).\<close>

definition alist_push_size ::
  "state \<Rightarrow> addr \<Rightarrow> size_t \<Rightarrow> arenaimp_alist \<Rightarrow> addr \<Rightarrow> (addr \<times> arenaimp_alist) res" where
  "alist_push_size s arena sz list item =
     (let index = al_count list
      in case arealloc_size s arena sz (index + 1) (al_data list) of
           Inl e \<Rightarrow> Inl e
         | Inr (ptr, s1) \<Rightarrow>
             if ptr = 0 then Inr ((0, list), s1)
             else
               (let list1 = (if ptr \<noteq> al_data list then list\<lparr>al_data := ptr\<rparr> else list);
                    dst = ptr + index * sz
                in case arenaimp_copy s1 dst item sz of
                     Inl e \<Rightarrow> Inl e
                   | Inr (_, s2) \<Rightarrow> Inr ((dst, list1\<lparr>al_count := index + 1\<rparr>), s2)))"

definition alist_pop_size ::
  "state \<Rightarrow> size_t \<Rightarrow> arenaimp_alist \<Rightarrow> (addr \<times> arenaimp_alist) res" where
  "alist_pop_size s sz list =
     (if asserts s \<and> \<not> al_count list > 0 then Inl AssertFail
      else if al_count list = 0 then Inr ((0, list), s)
      else
        (let index = al_count list - 1
         in Inr ((al_data list + index * sz, list\<lparr>al_count := index\<rparr>), s)))"

text \<open>\<open>alist_remove_size\<close> (lines 510--522).\<close>

definition alist_remove_size ::
  "state \<Rightarrow> size_t \<Rightarrow> arenaimp_alist \<Rightarrow> size_t \<Rightarrow> (bool \<times> arenaimp_alist) res" where
  "alist_remove_size s sz list index =
     (if asserts s \<and> \<not> index < al_count list then Inl AssertFail
      else if index \<ge> al_count list then Inr ((False, list), s)
      else
        (let last_i = al_count list - 1;
             list1 = list\<lparr>al_count := last_i\<rparr>
         in if index \<noteq> last_i then
              (let src = al_data list1 + index * sz;
                   dst = al_data list1 + last_i * sz
               in case memcpy s dst src sz of
                    Inl e \<Rightarrow> Inl e
                  | Inr (_, s1) \<Rightarrow> Inr ((True, list1), s1))
            else Inr ((True, list1), s)))"


section \<open>A store to start from\<close>

text \<open>Nothing allocated yet; the answers of the system allocator are \<open>plan\<close>.\<close>

definition init_state :: "bool \<Rightarrow> addr list \<Rightarrow> state" where
  "init_state dbg plan = \<lparr> asserts = dbg, arenas = (\<lambda>_. zero_arena), hdr = (\<lambda>_. 0),
     big_prev = (\<lambda>_. 0), big_next = (\<lambda>_. 0), defer_mem = (\<lambda>_ _. zero_slot),
     dh_mem = (\<lambda>_. \<lparr>dh_magic = 0, dh_slot = 0\<rparr>), bytes = (\<lambda>_. 0),
     malloc_plan = plan, live = Map.empty, trace = [] \<rparr>"

section \<open>The size-class table\<close>

lemma size_to_class_sorted: "sorted arenaimp_size_to_class"
  by (simp add: arenaimp_size_to_class_def)

lemma size_classes_strict: "sorted_wrt (<) arenaimp_size_classes"
  by (simp add: arenaimp_size_classes_def)

lemma size_to_class_length: "length arenaimp_size_to_class = 57"
  by (simp add: arenaimp_size_to_class_def)

lemma size_classes_length: "length arenaimp_size_classes = 10"
  by (simp add: arenaimp_size_classes_def)

definition class_fits :: "nat \<Rightarrow> bool" where
  "class_fits q = (let c = arenaimp_size_to_class ! q in
      c < 10 \<and> q \<le> arenaimp_size_classes ! c \<and>
      list_all (\<lambda>c'. q \<le> arenaimp_size_classes ! c' \<longrightarrow> c \<le> c') [0..<10])"

lemma class_fits_all: "list_all class_fits [0..<57]"
  by code_simp

lemma class_fits_nat:
  assumes "q < 57"
  shows "arenaimp_size_to_class ! q < 10"
    and "q \<le> arenaimp_size_classes ! (arenaimp_size_to_class ! q)"
    and "c' < 10 \<Longrightarrow> q \<le> arenaimp_size_classes ! c' \<Longrightarrow> arenaimp_size_to_class ! q \<le> c'"
proof -
  have f: "class_fits q"
    using class_fits_all assms by (simp add: list_all_iff)
  show "arenaimp_size_to_class ! q < 10"
    and "q \<le> arenaimp_size_classes ! (arenaimp_size_to_class ! q)"
    using f by (simp_all add: class_fits_def Let_def)
  show "c' < 10 \<Longrightarrow> q \<le> arenaimp_size_classes ! c' \<Longrightarrow> arenaimp_size_to_class ! q \<le> c'"
    using f by (simp add: class_fits_def Let_def list_all_iff)
qed

lemma unat_quantize:
  assumes "n \<le> 448"
  shows "unat (quantize n) = (unat n + 7) div 8"
proof -
  have "unat n \<le> 448" using assms by (simp add: word_le_nat_alt)
  then have a: "unat (n + 7) = unat n + 7"
    by (simp add: unat_word_ariths)
  have "quantize n = (n + 7) div 8"
    by (simp add: quantize_def ARENAIMP_SIZECLASS_QUANTIZATION_def add.commute)
  then have "unat (quantize n) = unat (n + 7) div unat (8 :: size_t)"
    by (simp only: unat_div)
  also have "\<dots> = (unat n + 7) div 8"
    by (simp only: a) simp
  finally show ?thesis .
qed

lemma size_classes_bound: "c < 10 \<Longrightarrow> arenaimp_size_classes ! c \<le> 56"
proof -
  have "list_all (\<lambda>c. arenaimp_size_classes ! c \<le> 56) [0..<10]" by code_simp
  then show "c < 10 \<Longrightarrow> arenaimp_size_classes ! c \<le> 56" by (simp add: list_all_iff)
qed

lemma unat_chunk_of:
  assumes "c < 10"
  shows "unat (chunk_of c) = 8 * (arenaimp_size_classes ! c)"
proof -
  have "arenaimp_size_classes ! c \<le> 56" using assms by (rule size_classes_bound)
  then show ?thesis
    by (simp add: chunk_of_def ARENAIMP_SIZECLASS_QUANTIZATION_def unat_word_ariths unat_of_nat)
qed

text \<open>
  Claim C4. For a footprint \<open>n\<close> of at most 448 bytes, the class that the lookup assigns
  is a class of the table, its bucket holds \<open>n\<close> rounded up to a multiple of 8, and no
  class below it does (the smallest such bucket); the class does not decrease when the
  footprint grows; and the bucket sizes grow strictly with the class index.
\<close>

theorem size_class_smallest_monotone:
  "(\<forall>n. n \<le> 448 \<longrightarrow>
      sizeclass_of n < ARENAIMP_NUM_SIZECLASSES \<and>
      8 * ((unat n + 7) div 8) \<le> unat (chunk_of (sizeclass_of n)) \<and>
      (\<forall>c'. c' < ARENAIMP_NUM_SIZECLASSES \<and> 8 * ((unat n + 7) div 8) \<le> unat (chunk_of c')
            \<longrightarrow> sizeclass_of n \<le> c')) \<and>
   (\<forall>a b. a < b \<and> b \<le> 448 \<longrightarrow> sizeclass_of a \<le> sizeclass_of b) \<and>
   (\<forall>i j. i < j \<and> j < ARENAIMP_NUM_SIZECLASSES \<longrightarrow> chunk_of i < chunk_of j)"
proof (intro conjI allI impI)
  fix n :: size_t
  assume n: "n \<le> 448"
  then have u: "unat n \<le> 448" by (simp add: word_le_nat_alt)
  let ?q = "(unat n + 7) div 8"
  have q: "?q < 57" using u by simp
  have sc: "sizeclass_of n = arenaimp_size_to_class ! ?q"
    by (simp add: sizeclass_of_def unat_quantize[OF n])
  show lt: "sizeclass_of n < ARENAIMP_NUM_SIZECLASSES"
    using class_fits_nat(1)[OF q] by (simp add: sc ARENAIMP_NUM_SIZECLASSES_def size_classes_length)
  then have lt10: "sizeclass_of n < 10"
    by (simp add: ARENAIMP_NUM_SIZECLASSES_def size_classes_length)
  show "8 * ?q \<le> unat (chunk_of (sizeclass_of n))"
    using class_fits_nat(2)[OF q] unat_chunk_of[OF lt10] by (simp add: sc)
  fix c'
  assume c': "c' < ARENAIMP_NUM_SIZECLASSES \<and> 8 * ?q \<le> unat (chunk_of c')"
  then have c10: "c' < 10" by (simp add: ARENAIMP_NUM_SIZECLASSES_def size_classes_length)
  with c' have "?q \<le> arenaimp_size_classes ! c'" by (simp add: unat_chunk_of)
  then show "sizeclass_of n \<le> c'"
    using class_fits_nat(3)[OF q c10] by (simp add: sc)
next
  fix a b :: size_t
  assume ab: "a < b \<and> b \<le> 448"
  then have b: "b \<le> 448" and a: "a \<le> 448" by auto
  have "unat a < unat b" "unat b \<le> 448" using ab by (simp_all add: word_less_nat_alt word_le_nat_alt)
  then have "(unat a + 7) div 8 \<le> (unat b + 7) div 8" "(unat b + 7) div 8 < 57"
    by (simp_all add: div_le_mono)
  then show "sizeclass_of a \<le> sizeclass_of b"
    by (simp add: sizeclass_of_def unat_quantize[OF a] unat_quantize[OF b]
        sorted_nth_mono[OF size_to_class_sorted] size_to_class_length)
next
  fix i j :: nat
  assume ij: "i < j \<and> j < ARENAIMP_NUM_SIZECLASSES"
  then have j: "j < 10" and i: "i < 10" by (simp_all add: ARENAIMP_NUM_SIZECLASSES_def size_classes_length)
  have "arenaimp_size_classes ! i < arenaimp_size_classes ! j"
    using sorted_wrt_nth_less[OF size_classes_strict, of i j] ij j by (simp add: size_classes_length)
  then show "chunk_of i < chunk_of j"
    by (simp add: word_less_nat_alt unat_chunk_of i j)
qed

theorem size_class_smallest_monotone_witness:
  "(28::size_t) \<le> 448 \<and> sizeclass_of 28 = 2 \<and> chunk_of 2 = 32 \<and> chunk_of 1 = 24 \<and>
   sizeclass_of 24 \<le> sizeclass_of 28 \<and> chunk_of 1 < chunk_of 2"
proof -
  have a: "(28::size_t) \<le> 448" by simp
  have b: "(24::size_t) < 28 \<and> (28::size_t) \<le> 448" by simp
  have c: "(1::nat) < 2 \<and> 2 < ARENAIMP_NUM_SIZECLASSES" 
    by (simp add: ARENAIMP_NUM_SIZECLASSES_def size_classes_length)
  have v: "sizeclass_of 28 = 2" "chunk_of 2 = 32" "chunk_of 1 = 24"
    by (simp_all add: sizeclass_of_def quantize_def chunk_of_def ARENAIMP_SIZECLASS_QUANTIZATION_def
        arenaimp_size_to_class_def arenaimp_size_classes_def)
  from size_class_smallest_monotone a b c v show ?thesis by blast
qed


section \<open>Facts about allocation\<close>

text \<open>
  What an allocation leaves alone: the payload, the trace, and every field of every arena
  but the page, the cursor, the free lists and \<open>next_size\<close>.
\<close>

definition alloc_frame :: "state \<Rightarrow> state \<Rightarrow> bool" where
  "alloc_frame s s' =
     (bytes s' = bytes s \<and> defer_mem s' = defer_mem s \<and> dh_mem s' = dh_mem s \<and>
      trace s' = trace s \<and> asserts s' = asserts s \<and>
      (\<forall>x. magic (arenas s' x) = magic (arenas s x) \<and>
           parent (arenas s' x) = parent (arenas s x) \<and>
           parent_slot (arenas s' x) = parent_slot (arenas s x) \<and>
           defers (arenas s' x) = defers (arenas s x) \<and>
           num_defers (arenas s' x) = num_defers (arenas s x) \<and>
           active_defer_head (arenas s' x) = active_defer_head (arenas s x) \<and>
           free_defer_head (arenas s' x) = free_defer_head (arenas s x) \<and>
           allocated (arenas s' x) = allocated (arenas s x)))"

lemma alloc_frame_refl: "alloc_frame s s"
  by (simp add: alloc_frame_def)




lemma aalloc_big_eq:
  assumes "arena \<noteq> 0" "asserts s \<longrightarrow> magic (arenas s arena) = ARENAIMP_MAGIC_ARENA"
    and "\<not> 8 + sz * count \<le> 448"
  shows "aalloc_uninit_size s arena sz count =
     (case malloc s (24 + sz * count) of
        (alloc, s1) \<Rightarrow>
          if alloc = 0 then (if asserts s then Inl AssertFail else Inr (0, s1))
          else Inr (alloc + 24, big_insert s1 arena alloc (sz * count)))"
proof -
  from assms(3) have c: "(8 + sz * count \<le> 448) = False" by simp
  from assms(2) have d: "(asserts s \<and> magic (arenas s arena) \<noteq> ARENAIMP_MAGIC_ARENA) = False"
    by blast
  show ?thesis
    using assms(1)
    by (subst aalloc_uninit_size.simps) (simp add: size_consts Let_def c d)
qed

lemma aalloc_reuse:
  assumes "arena \<noteq> 0" "asserts s \<longrightarrow> magic (arenas s arena) = ARENAIMP_MAGIC_ARENA"
    and "8 + sz * count \<le> 448" "next_free (arenas s arena) (sizeclass_of (8 + sz * count)) \<noteq> 0"
  shows "aalloc_uninit_size s arena sz count =
     Inr (next_free (arenas s arena) (sizeclass_of (8 + sz * count)) + 8,
          s\<lparr>arenas := (arenas s)(arena := (arenas s arena)\<lparr>next_free :=
              (next_free (arenas s arena))(sizeclass_of (8 + sz * count) :=
                 hdr s (next_free (arenas s arena) (sizeclass_of (8 + sz * count))))\<rparr>),
            hdr := (hdr s)(next_free (arenas s arena) (sizeclass_of (8 + sz * count)) := sz * count)\<rparr>)"
  using assms by (subst aalloc_uninit_size.simps) (simp add: size_consts Let_def)

lemma aalloc_bump:
  assumes "arena \<noteq> 0" "asserts s \<longrightarrow> magic (arenas s arena) = ARENAIMP_MAGIC_ARENA"
    and "8 + sz * count \<le> 448" "next_free (arenas s arena) (sizeclass_of (8 + sz * count)) = 0"
    and "chunk_of (sizeclass_of (8 + sz * count)) \<le> size_f (arenas s arena) - pos (arenas s arena)"
  shows "aalloc_uninit_size s arena sz count =
     Inr (page (arenas s arena) + pos (arenas s arena) + 8,
          s\<lparr>arenas := (arenas s)(arena := (arenas s arena)\<lparr>pos :=
              pos (arenas s arena) + chunk_of (sizeclass_of (8 + sz * count))\<rparr>),
            hdr := (hdr s)(page (arenas s arena) + pos (arenas s arena) := sz * count)\<rparr>)"
  using assms by (subst aalloc_uninit_size.simps) (simp add: size_consts Let_def)















section \<open>Resizing\<close>


lemma free_post:
  assumes "free s p = Inr (u, s')"
  shows "bytes s' = bytes s" "hdr s' = hdr s" "arenas s' = arenas s" "defer_mem s' = defer_mem s"
    "p \<noteq> 0 \<longrightarrow> live s' p = None"
  using assms by (auto simp: free_def split: if_splits)











section \<open>The big-object ring\<close>

text \<open>
  \<open>dseg s p ns y\<close>: from \<open>p\<close> the \<open>next\<close> links lead through the nodes \<open>ns\<close> to \<open>y\<close>,
  and the \<open>prev\<close> link of each of them, and of \<open>y\<close>, leads back to the one before.
\<close>

fun dseg :: "state \<Rightarrow> addr \<Rightarrow> addr list \<Rightarrow> addr \<Rightarrow> bool" where
  "dseg s p [] y = (big_next s p = y \<and> big_prev s y = p)"
| "dseg s p (n # ns) y = (big_next s p = n \<and> big_prev s n = p \<and> dseg s n ns y)"

text \<open>
  The ring of an arena with the big blocks \<open>ns\<close> (headers, first to last): head, blocks and
  tail are distinct, the tail leads to the head, and from the head the links lead through
  the blocks to the tail. For the empty ring only the \<open>next\<close> links are required.
\<close>

definition ring_ok :: "state \<Rightarrow> addr \<Rightarrow> addr list \<Rightarrow> bool" where
  "ring_ok s arena ns =
     (distinct (big_head_addr arena # ns @ [big_tail_addr arena]) \<and>
      big_next s (big_tail_addr arena) = big_head_addr arena \<and>
      (if ns = [] then big_next s (big_head_addr arena) = big_tail_addr arena
       else dseg s (big_head_addr arena) ns (big_tail_addr arena)))"


lemma dseg_frame:
  assumes "\<forall>n \<in> set (p # ns). big_next s' n = big_next s n"
    and "\<forall>n \<in> set (ns @ [y]). big_prev s' n = big_prev s n"
  shows "dseg s' p ns y = dseg s p ns y"
  using assms by (induction ns arbitrary: p) auto

lemma head_tail_distinct: "big_head_addr a \<noteq> big_tail_addr a"
  by (simp add: big_head_addr_def big_tail_addr_def)

lemma ring_ok_init: "ring_ok (arenaimp_init s a) a []"
  using head_tail_distinct[of a]
  by (simp add: ring_ok_def arenaimp_init_def Let_def upd_arena_def)

lemma big_insert_links:
  "big_next (big_insert s arena q c) =
     (big_next s)(q := big_next s (big_head_addr arena), big_head_addr arena := q)"
  "big_prev (big_insert s arena q c) =
     (big_prev s)(q := big_head_addr arena, big_next s (big_head_addr arena) := q)"
  by (simp_all add: big_insert_def Let_def)

lemma ring_ok_insert:
  assumes ok: "ring_ok s arena ns"
    and fresh: "q \<notin> set (big_head_addr arena # ns @ [big_tail_addr arena])"
  shows "ring_ok (big_insert s arena q c) arena (q # ns)"
proof -
  let ?h = "big_head_addr arena" and ?t = "big_tail_addr arena"
  let ?s' = "big_insert s arena q c"
  from ok have d: "distinct (?h # ns @ [?t])" and tl: "big_next s ?t = ?h"
    by (simp_all add: ring_ok_def)
  from d fresh have d': "distinct (?h # (q # ns) @ [?t])" by auto
  from fresh have qh: "q \<noteq> ?h" and qt: "q \<noteq> ?t" by auto
  from d have th: "?t \<noteq> ?h" by auto
  have tl': "big_next ?s' ?t = ?h"
    using tl qt th by (simp add: big_insert_links)
  have seg: "dseg ?s' ?h (q # ns) ?t"
  proof (cases ns)
    case Nil
    with ok have "big_next s ?h = ?t" by (simp add: ring_ok_def)
    then show ?thesis
      using Nil qh qt th by (simp add: big_insert_links)
  next
    case (Cons n rest)
    with ok have n: "big_next s ?h = n" and r: "dseg s n rest ?t"
      by (simp_all add: ring_ok_def)
    from d fresh Cons have ne: "n \<noteq> ?h" "n \<noteq> q" "n \<notin> set rest" "n \<noteq> ?t"
      "?h \<notin> set rest" "q \<notin> set rest"
      by auto
    have "dseg ?s' n rest ?t = dseg s n rest ?t"
      using ne qt th by (intro dseg_frame) (auto simp: big_insert_links n)
    with r show ?thesis
      using Cons n ne qh by (simp add: big_insert_links)
  qed
  from d' tl' seg show ?thesis by (simp add: ring_ok_def)
qed

lemma big_unlink_links:
  "big_next (big_unlink s x) = (big_next s)(big_prev s x := big_next s x)"
  "big_prev (big_unlink s x) = (big_prev s)(big_next s x := big_prev s x)"
  by (simp_all add: big_unlink_def Let_def)

lemma dseg_unlink:
  assumes "dseg s p ns y" "distinct (p # ns @ [y])" "x \<in> set ns"
  shows "big_next s (big_prev s x) = x \<and> big_prev s (big_next s x) = x \<and>
         big_prev s x \<in> set (p # ns) \<and> big_next s x \<in> set (ns @ [y]) \<and>
         dseg (big_unlink s x) p (remove1 x ns) y"
  using assms
proof (induction ns arbitrary: p)
  case Nil
  then show ?case by simp
next
  case (Cons n rest)
  show ?case
  proof (cases "x = n")
    case True
    from Cons.prems have pn: "big_next s p = n" "big_prev s n = p" and r: "dseg s n rest y"
      by simp_all
    show ?thesis
    proof (cases rest)
      case Nil
      with r have "big_next s n = y" "big_prev s y = n" by simp_all
      then show ?thesis
        using True Nil pn Cons.prems(2) by (simp add: big_unlink_links)
    next
      case (Cons m r')
      with r have m: "big_next s n = m" "big_prev s m = n" and r2: "dseg s m r' y"
        by simp_all
      from Cons.prems(2) Cons have ne: "p \<noteq> m" "p \<notin> set r'" "m \<notin> set r'" "m \<noteq> y" "p \<noteq> n"
        by auto
      have "dseg (big_unlink s n) m r' y = dseg s m r' y"
        using ne by (intro dseg_frame) (auto simp: big_unlink_links pn m)
      with r2 show ?thesis
        using True Cons pn m ne by (simp add: big_unlink_links)
    qed
  next
    case False
    with Cons.prems have xr: "x \<in> set rest" by simp
    from Cons.prems have pn: "big_next s p = n" "big_prev s n = p" and r: "dseg s n rest y"
      and d: "distinct (n # rest @ [y])"
      by simp_all
    from Cons.IH[OF r d xr] have
      a: "big_next s (big_prev s x) = x" "big_prev s (big_next s x) = x"
      and b: "big_prev s x \<in> set (n # rest)" "big_next s x \<in> set (rest @ [y])"
      and c: "dseg (big_unlink s x) n (remove1 x rest) y"
      by simp_all
    from Cons.prems(2) b have ne: "big_prev s x \<noteq> p" "big_next s x \<noteq> n"
      by auto
    show ?thesis
      using False a b c pn ne by (simp add: big_unlink_links)
  qed
qed

lemma ring_ok_unlink:
  assumes ok: "ring_ok s arena ns" and x: "x \<in> set ns"
  shows "big_next s (big_prev s x) = x \<and> big_prev s (big_next s x) = x \<and>
         ring_ok (big_unlink s x) arena (remove1 x ns)"
proof -
  let ?h = "big_head_addr arena" and ?t = "big_tail_addr arena"
  from ok x have d: "distinct (?h # ns @ [?t])" and tl: "big_next s ?t = ?h"
    and seg: "dseg s ?h ns ?t"
    by (auto simp: ring_ok_def split: if_splits)
  note u = dseg_unlink[OF seg d x]
  from u have pm: "big_prev s x \<in> set (?h # ns)" by simp
  with d have pt: "big_prev s x \<noteq> ?t" by auto
  have tl': "big_next (big_unlink s x) ?t = ?h"
    using tl pt by (simp add: big_unlink_links)
  from d have d': "distinct (?h # remove1 x ns @ [?t])"
    by (auto simp: distinct_remove1 dest: notin_set_remove1)
  have "remove1 x ns = [] \<longrightarrow> big_next (big_unlink s x) ?h = ?t"
  proof
    assume "remove1 x ns = []"
    with u show "big_next (big_unlink s x) ?h = ?t" by simp
  qed
  with u tl' d' show ?thesis
    by (simp add: ring_ok_def)
qed


lemma ring_ok_cong:
  assumes "big_next s' = big_next s" "big_prev s' = big_prev s"
  shows "ring_ok s' arena ns = ring_ok s arena ns"
proof -
  have "dseg s' (big_head_addr arena) ns (big_tail_addr arena)
        = dseg s (big_head_addr arena) ns (big_tail_addr arena)"
    using assms by (intro dseg_frame) simp_all
  then show ?thesis by (simp add: ring_ok_def assms)
qed

lemma ring_ok_empty:
  assumes "ring_ok s arena []"
  shows "big_next s (big_head_addr arena) = big_tail_addr arena \<and>
         big_next s (big_tail_addr arena) = big_head_addr arena"
  using assms by (simp add: ring_ok_def)


lemma ring_ok_big_free:
  assumes ok: "ring_ok s arena ns" and a: "arena \<noteq> 0" and p: "ptr \<noteq> 0"
    and x: "ptr - 24 \<in> set ns" and big: "\<not> hdr s (ptr - 8) \<le> 440"
  shows "\<exists>s'. afree s arena ptr = Inr ((), s') \<and> ring_ok s' arena (remove1 (ptr - 24) ns)"
proof -
  note u = ring_ok_unlink[OF ok x]
  from big have c: "(hdr s (ptr - 8) \<le> 440) = False" by simp
  have "afree s arena ptr = Inr ((), big_unlink s (ptr - 24))"
    using a p u
    by (simp add: afree_def Let_def c ARENAIMP_LARGEST_SIZECLASS_def sizeof_small_header_def)
  with u show ?thesis by blast
qed


lemma memset0_eq: "n \<noteq> 0 \<Longrightarrow> dst \<noteq> 0 \<Longrightarrow> memset0 s dst n = Inr ((), zeroed s dst n)"
  by (simp add: memset0_def)

definition root_state :: "state \<Rightarrow> addr \<Rightarrow> addr list \<Rightarrow> state" where
  "root_state s a qs =
     arenaimp_init
       (upd_arena (zeroed (s\<lparr>malloc_plan := qs, live := (live s)(a \<mapsto> 296)\<rparr>) a 224) a
          (\<lambda>r. r\<lparr>allocated := True\<rparr>)) a"

lemma arena_create_root:
  assumes "malloc_plan s = a # qs" "a \<noteq> 0"
  shows "arena_create s 0 = Inr (a, root_state s a qs)"
  using assms
  by (simp add: arena_create_def malloc_def memset0_eq root_state_def sizeof_pointer_def
      ARENAIMP_EXTRA_SIZE_def sizeof_arenaimp_t_def)

lemma root_state_fields:
  "malloc_plan (root_state s a qs) = qs"
  "asserts (root_state s a qs) = asserts s"
  "trace (root_state s a qs) = trace s"
  "live (root_state s a qs) = (live s)(a \<mapsto> 296)"
  "arenas (root_state s a qs) a =
     zero_arena\<lparr>magic := ARENAIMP_MAGIC_ARENA, page := a, pos := 224, size_f := 512,
       next_size := 256, active_defer_head := SIZE_MAX, free_defer_head := SIZE_MAX,
       allocated := True\<rparr>"
  "big_prev (root_state s a qs) (big_tail_addr a) = 0"
  "big_prev (root_state s a qs) (big_head_addr a) = 0"
  by (simp_all add: root_state_def arenaimp_init_def upd_arena_def zeroed_def zero_range_def
      Let_def sizeof_arenaimp_t_def ARENAIMP_FIRST_PAGE_SIZE_def ARENAIMP_INIT_SIZE_def
      big_head_addr_def big_tail_addr_def)

lemma root_state_ring: "ring_ok (root_state s a qs) a []"
  unfolding root_state_def by (rule ring_ok_init)




section \<open>Pages of the growth path\<close>










lemma big_insert_fields:
  "live (big_insert s arena q c) = live s" "trace (big_insert s arena q c) = trace s"
  "hdr (big_insert s arena q c) = (hdr s)(q + 16 := c)"
  by (simp_all add: big_insert_def Let_def)










section \<open>A root arena at work\<close>

lemma afree_small:
  assumes "arena \<noteq> 0" "ptr \<noteq> 0" "hdr s (ptr - 8) \<le> 440"
  shows "afree s arena ptr =
     Inr ((), s\<lparr>hdr := (hdr s)(ptr - 8 :=
                  next_free (arenas s arena) (sizeclass_of (hdr s (ptr - 8) + 8))),
               arenas := (arenas s)(arena := (arenas s arena)\<lparr>next_free :=
                  (next_free (arenas s arena))(sizeclass_of (hdr s (ptr - 8) + 8) := ptr - 8)\<rparr>)\<rparr>)"
  using assms
  by (simp add: afree_def Let_def ARENAIMP_LARGEST_SIZECLASS_def sizeof_small_header_def)

lemma afree_big:
  assumes "arena \<noteq> 0" "ptr \<noteq> 0" "\<not> hdr s (ptr - 8) \<le> 440"
    and "big_next s (big_prev s (ptr - 24)) = ptr - 24 \<and> big_prev s (big_next s (ptr - 24)) = ptr - 24"
  shows "afree s arena ptr = Inr ((), big_unlink s (ptr - 24))"
proof -
  from assms(3) have c: "(hdr s (ptr - 8) \<le> 440) = False" by simp
  show ?thesis
    using assms(1,2,4)
    by (simp add: afree_def Let_def c ARENAIMP_LARGEST_SIZECLASS_def sizeof_small_header_def)
qed

lemma sizeclass_28: "sizeclass_of 28 = 2" "chunk_of 2 = 32"
  by (simp_all add: sizeclass_of_def quantize_def chunk_of_def arenaimp_size_to_class_def
      arenaimp_size_classes_def ARENAIMP_SIZECLASS_QUANTIZATION_def)

lemma first_page_nowrap:
  fixes a :: addr
  assumes "a \<noteq> 0" "unat a + 512 < 2 ^ 64"
  shows "a + 224 \<noteq> 0" "a + 232 \<noteq> 0"
proof -
  have "unat (a + 224) = unat a + 224" "unat (a + 232) = unat a + 232"
    using assms(2) by (simp_all add: unat_word_ariths)
  then have "unat (a + 224) \<noteq> 0" "unat (a + 232) \<noteq> 0" by simp_all
  then show "a + 224 \<noteq> 0" "a + 232 \<noteq> 0" by auto
qed

lemma root_scenario:
  assumes plan: "malloc_plan s = a # q # qs" and a: "a \<noteq> 0" and nw: "unat a + 512 < 2 ^ 64"
    and q: "q \<noteq> 0" and qw: "q + 24 \<noteq> 0"
    and fresh: "q \<noteq> big_head_addr a" "q \<noteq> big_tail_addr a"
  shows "\<exists>s1 s2 s3 s4 s5 s6.
     arena_create s 0 = Inr (a, s1) \<and>
     aalloc_uninit_size s1 a 20 1 = Inr (a + 232, s2) \<and>
     malloc_plan s2 = q # qs \<and> page (arenas s2 a) = a \<and> pos (arenas s2 a) = 256 \<and>
     afree s2 a (a + 232) = Inr ((), s3) \<and>
     next_free (arenas s3 a) (sizeclass_of 28) = a + 224 \<and> hdr s3 (a + 224) = 0 \<and>
     aalloc_uninit_size s3 a 20 1 = Inr (a + 232, s4) \<and>
     hdr s4 (a + 224) = 20 \<and> malloc_plan s4 = q # qs \<and> live s4 = live s1 \<and>
     page (arenas s4 a) = a \<and> pos (arenas s4 a) = 256 \<and>
     next_free (arenas s4 a) (sizeclass_of 28) = 0 \<and> ring_ok s4 a [] \<and>
     aalloc_uninit_size s4 a 5000 1 = Inr (q + 24, s5) \<and>
     hdr s5 (q + 16) = 5000 \<and> live s5 q = Some 5024 \<and> ring_ok s5 a [q] \<and>
     pos (arenas s5 a) = 256 \<and>
     afree s5 a (q + 24) = Inr ((), s6) \<and> ring_ok s6 a [] \<and>
     big_next s6 (big_head_addr a) = big_tail_addr a \<and>
     big_next s6 (big_tail_addr a) = big_head_addr a \<and>
     big_prev s6 (big_tail_addr a) = big_head_addr a"
proof -
  note nz = first_page_nowrap[OF a nw]
  let ?s1 = "root_state s a (q # qs)"
  note f = root_state_fields[of s a "q # qs"]
  let ?R = "zero_arena\<lparr>magic := ARENAIMP_MAGIC_ARENA, page := a, pos := 224, size_f := 512,
       next_size := 256, active_defer_head := SIZE_MAX, free_defer_head := SIZE_MAX,
       allocated := True\<rparr>"
  have c1: "arena_create s 0 = Inr (a, ?s1)"
    using plan a by (rule arena_create_root)
  have m1: "asserts ?s1 \<longrightarrow> magic (arenas ?s1 a) = ARENAIMP_MAGIC_ARENA"
    by (simp add: f)
  let ?s2 = "?s1\<lparr>arenas := (arenas ?s1)(a := ?R\<lparr>pos := 256\<rparr>),
                 hdr := (hdr ?s1)(a + 224 := 20)\<rparr>"
  have "8 + (20 :: size_t) * 1 \<le> 448"
    "next_free (arenas ?s1 a) (sizeclass_of (8 + 20 * 1)) = 0"
    "chunk_of (sizeclass_of (8 + 20 * 1)) \<le> size_f (arenas ?s1 a) - pos (arenas ?s1 a)"
    by (simp_all add: f sizeclass_28 zero_arena_def)
  from aalloc_bump[OF a m1 this]
  have c2: "aalloc_uninit_size ?s1 a 20 1 = Inr (a + 232, ?s2)"
    by (simp add: f sizeclass_28 add.commute)
  have m2: "asserts ?s2 \<longrightarrow> magic (arenas ?s2 a) = ARENAIMP_MAGIC_ARENA"
    by (simp add: f zero_arena_def)
  let ?s3 = "?s2\<lparr>hdr := (hdr ?s2)(a + 224 := 0),
                 arenas := (arenas ?s2)(a := ?R\<lparr>pos := 256, next_free := (\<lambda>_. 0)(2 := a + 224)\<rparr>)\<rparr>"
  have e8: "a + 232 - 8 = a + 224" by simp
  have "hdr ?s2 (a + 232 - 8) \<le> 440"
    unfolding e8 by simp
  from afree_small[OF a nz(2) this]
  have c3: "afree ?s2 a (a + 232) = Inr ((), ?s3)"
    unfolding e8 by (simp add: sizeclass_28 zero_arena_def)
  have m3: "asserts ?s3 \<longrightarrow> magic (arenas ?s3 a) = ARENAIMP_MAGIC_ARENA"
    by (simp add: zero_arena_def)
  let ?s4 = "?s3\<lparr>arenas := (arenas ?s3)(a := ?R\<lparr>pos := 256, next_free := (\<lambda>_. 0)\<rparr>),
                 hdr := (hdr ?s3)(a + 224 := 20)\<rparr>"
  have "8 + (20 :: size_t) * 1 \<le> 448"
    "next_free (arenas ?s3 a) (sizeclass_of (8 + 20 * 1)) \<noteq> 0"
    using nz(1) by (simp_all add: sizeclass_28)
  from aalloc_reuse[OF a m3 this]
  have c4: "aalloc_uninit_size ?s3 a 20 1 = Inr (a + 232, ?s4)"
    by (simp add: sizeclass_28 zero_arena_def add.commute fun_upd_idem)
  have m4: "asserts ?s4 \<longrightarrow> magic (arenas ?s4 a) = ARENAIMP_MAGIC_ARENA"
    by (simp add: zero_arena_def)
  have ok4: "ring_ok ?s4 a []"
    using root_state_ring[of s a "q # qs"] ring_ok_cong[of ?s4 ?s1 a "[]"] by simp
  have p4: "malloc_plan ?s4 = q # qs"
    by (simp add: f)
  have fr4: "q \<notin> set (big_head_addr a # [] @ [big_tail_addr a])"
    using fresh by simp
  have b5: "\<not> 8 + (5000 :: size_t) * 1 \<le> 448" by simp
  let ?s5 = "big_insert (?s4\<lparr>malloc_plan := qs, live := (live ?s4)(q \<mapsto> 24 + 5000 * 1)\<rparr>) a q (5000 * 1)"
  have c5: "aalloc_uninit_size ?s4 a 5000 1 = Inr (q + 24, ?s5)"
    using q by (subst aalloc_big_eq[OF a m4 b5]) (simp add: malloc_def f)
  have "ring_ok (?s4\<lparr>malloc_plan := qs, live := (live ?s4)(q \<mapsto> 24 + 5000 * 1)\<rparr>) a []"
    using ok4 ring_ok_cong[of "?s4\<lparr>malloc_plan := qs, live := (live ?s4)(q \<mapsto> 24 + 5000 * 1)\<rparr>" ?s4 a "[]"]
    by simp
  from ring_ok_insert[OF this fr4]
  have ok5: "ring_ok ?s5 a [q]" .
  have cap5: "hdr ?s5 (q + 16) = 5000"
    by (simp add: big_insert_fields)
  have l5: "live ?s5 q = Some 5024"
    by (simp add: big_insert_fields)
  have p5: "pos (arenas ?s5 a) = 256"
    by (simp add: big_insert_def Let_def)
  have e24: "q + 24 - 8 = q + 16" "q + 24 - 24 = q" by simp_all
  have "\<not> hdr ?s5 (q + 24 - 8) \<le> 440"
    unfolding e24 cap5 by simp
  from ring_ok_big_free[OF ok5 a qw _ this]
  obtain s6 where c6: "afree ?s5 a (q + 24) = Inr ((), s6)" and ok6: "ring_ok s6 a []"
    unfolding e24 by auto
  note e6 = ring_ok_empty[OF ok6]
  have "big_next ?s5 (big_prev ?s5 (q + 24 - 24)) = q + 24 - 24 \<and>
        big_prev ?s5 (big_next ?s5 (q + 24 - 24)) = q + 24 - 24"
    unfolding e24 using ring_ok_unlink[OF ok5, of q] by simp
  from afree_big[OF a qw \<open>\<not> hdr ?s5 (q + 24 - 8) \<le> 440\<close> this] c6
  have c6': "s6 = big_unlink ?s5 q"
    unfolding e24 by simp
  have pt6: "big_prev s6 (big_tail_addr a) = big_head_addr a"
    using fresh q ok4
    by (simp add: c6' big_unlink_links big_insert_links ring_ok_def)
  have s2f: "malloc_plan ?s2 = q # qs" "page (arenas ?s2 a) = a" "pos (arenas ?s2 a) = 256"
    by (simp_all add: f)
  have s3f: "next_free (arenas ?s3 a) (sizeclass_of 28) = a + 224" "hdr ?s3 (a + 224) = 0"
    by (simp_all add: sizeclass_28)
  have s4f: "hdr ?s4 (a + 224) = 20" "malloc_plan ?s4 = q # qs" "live ?s4 = live ?s1"
    "page (arenas ?s4 a) = a" "pos (arenas ?s4 a) = 256"
    "next_free (arenas ?s4 a) (sizeclass_of 28) = 0"
    by (simp_all add: f)
  from c1 c2 s2f c3 s3f c4 s4f ok4 c5 cap5 l5 ok5 p5 c6 ok6 e6 pt6
  show ?thesis by blast
qed


text \<open>
  Claim C5. In any store where the system allocator answers the next two calls with the
  blocks \<open>a\<close> and \<open>q\<close>: \<open>arena_create\<close> makes the root arena at \<open>a\<close>; the first block of
  20 bytes comes from the first page, at \<open>a + 232\<close>, without a call of the system
  allocator; after its release it heads the free list of its class; the second block of
  20 bytes is the same address, with the capacity 20 written over the link, the cursor
  and the page as before and no call of the system allocator. The block of 5000 bytes is
  the system block \<open>q\<close>, alone in the ring; after its release the ring is empty, the head
  leads to the tail and back.
\<close>

theorem root_arena_scenario:
  "malloc_plan s = a # q # qs \<and> a \<noteq> 0 \<and> unat a + 512 < 2 ^ 64 \<and> q \<noteq> 0 \<and> q + 24 \<noteq> 0 \<and>
   q \<noteq> big_head_addr a \<and> q \<noteq> big_tail_addr a \<longrightarrow>
   (\<exists>s1 s2 s3 s4 s5 s6.
     arena_create s 0 = Inr (a, s1) \<and>
     aalloc_uninit_size s1 a 20 1 = Inr (a + 232, s2) \<and>
     malloc_plan s2 = q # qs \<and> page (arenas s2 a) = a \<and> pos (arenas s2 a) = 256 \<and>
     afree s2 a (a + 232) = Inr ((), s3) \<and>
     next_free (arenas s3 a) (sizeclass_of 28) = a + 224 \<and> hdr s3 (a + 224) = 0 \<and>
     aalloc_uninit_size s3 a 20 1 = Inr (a + 232, s4) \<and>
     hdr s4 (a + 224) = 20 \<and> malloc_plan s4 = q # qs \<and> live s4 = live s1 \<and>
     page (arenas s4 a) = a \<and> pos (arenas s4 a) = 256 \<and>
     next_free (arenas s4 a) (sizeclass_of 28) = 0 \<and> ring_ok s4 a [] \<and>
     aalloc_uninit_size s4 a 5000 1 = Inr (q + 24, s5) \<and>
     hdr s5 (q + 16) = 5000 \<and> live s5 q = Some 5024 \<and> ring_ok s5 a [q] \<and>
     pos (arenas s5 a) = 256 \<and>
     afree s5 a (q + 24) = Inr ((), s6) \<and> ring_ok s6 a [] \<and>
     big_next s6 (big_head_addr a) = big_tail_addr a \<and>
     big_next s6 (big_tail_addr a) = big_head_addr a \<and>
     big_prev s6 (big_tail_addr a) = big_head_addr a)"
proof
  assume h: "malloc_plan s = a # q # qs \<and> a \<noteq> 0 \<and> unat a + 512 < 2 ^ 64 \<and> q \<noteq> 0 \<and>
    q + 24 \<noteq> 0 \<and> q \<noteq> big_head_addr a \<and> q \<noteq> big_tail_addr a"
  show "\<exists>s1 s2 s3 s4 s5 s6.
     arena_create s 0 = Inr (a, s1) \<and>
     aalloc_uninit_size s1 a 20 1 = Inr (a + 232, s2) \<and>
     malloc_plan s2 = q # qs \<and> page (arenas s2 a) = a \<and> pos (arenas s2 a) = 256 \<and>
     afree s2 a (a + 232) = Inr ((), s3) \<and>
     next_free (arenas s3 a) (sizeclass_of 28) = a + 224 \<and> hdr s3 (a + 224) = 0 \<and>
     aalloc_uninit_size s3 a 20 1 = Inr (a + 232, s4) \<and>
     hdr s4 (a + 224) = 20 \<and> malloc_plan s4 = q # qs \<and> live s4 = live s1 \<and>
     page (arenas s4 a) = a \<and> pos (arenas s4 a) = 256 \<and>
     next_free (arenas s4 a) (sizeclass_of 28) = 0 \<and> ring_ok s4 a [] \<and>
     aalloc_uninit_size s4 a 5000 1 = Inr (q + 24, s5) \<and>
     hdr s5 (q + 16) = 5000 \<and> live s5 q = Some 5024 \<and> ring_ok s5 a [q] \<and>
     pos (arenas s5 a) = 256 \<and>
     afree s5 a (q + 24) = Inr ((), s6) \<and> ring_ok s6 a [] \<and>
     big_next s6 (big_head_addr a) = big_tail_addr a \<and>
     big_next s6 (big_tail_addr a) = big_head_addr a \<and>
     big_prev s6 (big_tail_addr a) = big_head_addr a"
    by (rule root_scenario) (use h in simp_all)
qed

text \<open>The scenario from the empty store, with the blocks at 0x10000 and 0x20000.\<close>

theorem root_arena_scenario_witness:
  "\<exists>s1 s2 s3 s4 s5 s6.
     arena_create (init_state False [0x10000, 0x20000]) 0 = Inr (0x10000, s1) \<and>
     aalloc_uninit_size s1 0x10000 20 1 = Inr (0x100E8, s2) \<and>
     malloc_plan s2 = [0x20000] \<and> page (arenas s2 0x10000) = 0x10000 \<and> pos (arenas s2 0x10000) = 256 \<and>
     afree s2 0x10000 0x100E8 = Inr ((), s3) \<and>
     next_free (arenas s3 0x10000) (sizeclass_of 28) = 0x100E0 \<and> hdr s3 0x100E0 = 0 \<and>
     aalloc_uninit_size s3 0x10000 20 1 = Inr (0x100E8, s4) \<and>
     hdr s4 0x100E0 = 20 \<and> malloc_plan s4 = [0x20000] \<and> live s4 = live s1 \<and>
     page (arenas s4 0x10000) = 0x10000 \<and> pos (arenas s4 0x10000) = 256 \<and>
     next_free (arenas s4 0x10000) (sizeclass_of 28) = 0 \<and> ring_ok s4 0x10000 [] \<and>
     aalloc_uninit_size s4 0x10000 5000 1 = Inr (0x20018, s5) \<and>
     hdr s5 0x20010 = 5000 \<and> live s5 0x20000 = Some 5024 \<and> ring_ok s5 0x10000 [0x20000] \<and>
     pos (arenas s5 0x10000) = 256 \<and>
     afree s5 0x10000 0x20018 = Inr ((), s6) \<and> ring_ok s6 0x10000 [] \<and>
     big_next s6 (big_head_addr 0x10000) = big_tail_addr 0x10000 \<and>
     big_next s6 (big_tail_addr 0x10000) = big_head_addr 0x10000 \<and>
     big_prev s6 (big_tail_addr 0x10000) = big_head_addr 0x10000"
proof -
  let ?s = "init_state False [0x10000, 0x20000]"
  have h: "malloc_plan ?s = 0x10000 # 0x20000 # [] \<and> (0x10000 :: addr) \<noteq> 0 \<and>
    unat (0x10000 :: addr) + 512 < 2 ^ 64 \<and> (0x20000 :: addr) \<noteq> 0 \<and>
    (0x20000 :: addr) + 24 \<noteq> 0 \<and> 0x20000 \<noteq> big_head_addr 0x10000 \<and>
    0x20000 \<noteq> big_tail_addr 0x10000"
    by (simp add: init_state_def big_head_addr_def big_tail_addr_def)
  from root_arena_scenario[of ?s "0x10000" "0x20000" "[]", THEN mp, OF h]
  show ?thesis by simp
qed


end
